theory Spec2Isabelle
  imports Main "HOL-Library.Sublist"
begin

section \<open>The launcher \<open>launch_gemma_api.py\<close>\<close>

text \<open>
  The launcher is one procedure, \<open>main\<close>: two guard clauses (model file, server library),
  three environment defaults, two configuration objects, the app factory and the HTTP
  runner. The model runs \<open>main\<close> on a description of the host and returns how the
  procedure ends, the process environment it leaves, and the calls it made, in order.
\<close>

subsection \<open>What the launcher reads from its host\<close>

text \<open>
  \<open>script_dir\<close> is \<open>Path(__file__).resolve().parent\<close> as a string; \<open>path_exists\<close> answers
  \<open>Path.exists()\<close>; \<open>importable m\<close> says whether importing module \<open>m\<close> succeeds (an
  import that fails raises \<open>ImportError\<close>); \<open>initial_environ\<close> is \<open>os.environ\<close> at entry;
  \<open>cpu_count\<close> is what \<open>multiprocessing.cpu_count()\<close> returns.
  Calls into the standard library and the wrapped library are taken to return: the
  launcher catches nothing they raise, and handles only the two guard clauses below.
\<close>

record platform =
  script_dir :: string
  path_exists :: "string \<Rightarrow> bool"
  importable :: "string \<Rightarrow> bool"
  initial_environ :: "string \<rightharpoonup> string"
  cpu_count :: int

subsection \<open>The configuration objects\<close>

text \<open>
  \<open>ServerSettings\<close> and \<open>ModelSettings\<close> are classes of the wrapped library. The records
  hold the keyword arguments the launcher passes and, for the server settings, the two
  attributes it reads back without having passed them (\<open>ssl_keyfile\<close>, \<open>ssl_certfile\<close>).
\<close>

record server_settings =
  host :: string
  port :: int
  interrupt_requests :: bool
  ssl_keyfile :: "string option"
  ssl_certfile :: "string option"

record model_settings =
  model :: string
  model_alias :: string
  chat_format :: string
  n_ctx :: int
  n_gpu_layers :: int
  n_threads :: int
  n_threads_batch :: int
  n_batch :: int
  n_ubatch :: int
  use_mmap :: bool
  use_mlock :: bool
  cache :: bool
  cache_type :: string
  cache_size :: int
  offload_kqv :: bool
  flash_attn :: bool
  logits_all :: bool
  verbose :: bool

text \<open>
  The class \<open>ServerSettings\<close> is not part of the repository, so the values its
  constructor gives to the attributes the launcher does not pass are a parameter.
\<close>

record server_library =
  default_ssl_keyfile :: "string option"
  default_ssl_certfile :: "string option"

definition ServerSettings :: "server_library \<Rightarrow> string \<Rightarrow> int \<Rightarrow> bool \<Rightarrow> server_settings" where
  "ServerSettings lib h p i =
     \<lparr>host = h, port = p, interrupt_requests = i,
      ssl_keyfile = default_ssl_keyfile lib, ssl_certfile = default_ssl_certfile lib\<rparr>"

text \<open>The app that \<open>create_app\<close> returns is opaque: it is known by the arguments it was made from.\<close>

datatype app = App server_settings "model_settings list"

subsection \<open>Calls and outcomes\<close>

text \<open>
  \<open>Print_stderr s\<close> is \<open>print(s, file=sys.stderr)\<close>; \<open>Import m\<close> is the attempt to import
  module \<open>m\<close>; \<open>Environ_setdefault k v\<close> is \<open>os.environ.setdefault(k, v)\<close>;
  \<open>Uvicorn_run a h p l k c\<close> is \<open>uvicorn.run(a, host=h, port=p, log_level=l,
  ssl_keyfile=k, ssl_certfile=c)\<close>, the call that binds the port. A printed string is
  the argument of \<open>print\<close>; the line end that \<open>print\<close> appends is left out.
\<close>

datatype event =
    Print_stderr string
  | Import string
  | Environ_setdefault string string
  | Build_ServerSettings server_settings
  | Build_ModelSettings model_settings
  | Create_app server_settings "model_settings list"
  | Uvicorn_run app string int string "string option" "string option"

text \<open>
  \<open>Exit n\<close> is \<open>SystemExit(n)\<close>; \<open>Uncaught_ImportError\<close> is an import failure outside the
  \<open>try\<close> block; \<open>Runner_entered\<close> is control handed to the HTTP runner, which blocks.
\<close>

datatype outcome = Exit int | Uncaught_ImportError | Runner_entered

record process =
  os_environ :: "string \<rightharpoonup> string"
  events :: "event list"

definition emit :: "event \<Rightarrow> process \<Rightarrow> process" where
  "emit e p = p\<lparr>events := events p @ [e]\<rparr>"

text \<open>\<open>os.environ.setdefault(k, v)\<close>: the key is written only when it is missing.\<close>

definition setdefault :: "string \<Rightarrow> string \<Rightarrow> process \<Rightarrow> process" where
  "setdefault k v p =
     (let p' = emit (Environ_setdefault k v) p
      in case os_environ p' k of
           Some _ \<Rightarrow> p'
         | None \<Rightarrow> p'\<lparr>os_environ := (os_environ p')(k \<mapsto> v)\<rparr>)"

subsection \<open>Paths and messages\<close>

text \<open>The \<open>/\<close> of \<open>pathlib\<close> on a POSIX path and a plain relative segment.\<close>

definition path_join :: "string \<Rightarrow> string \<Rightarrow> string" where
  "path_join p s = (if p \<noteq> [] \<and> last p = CHR ''/'' then p @ s else p @ ''/'' @ s)"

definition model_path :: "platform \<Rightarrow> string" where
  "model_path h = path_join (path_join (script_dir h) ''Model'') ''gemma-3-270m-it-Q8_0.gguf''"

definition model_not_found_message :: "string \<Rightarrow> string" where
  "model_not_found_message mp = ''[!] Model file not found: '' @ mp"

definition missing_dependency_message :: string where
  \<open>missing_dependency_message =
     ''[!] Missing dependency: llama-cpp-python with server extras.'' @ [CHR 0x0A] @
     ''    Install it with: pip install "llama-cpp-python[server]"''\<close>

subsection \<open>The procedure\<close>

definition main :: "server_library \<Rightarrow> platform \<Rightarrow> outcome \<times> process" where
  "main lib h =
     (let project_root = script_dir h;
          model_path = path_join (path_join project_root ''Model'') ''gemma-3-270m-it-Q8_0.gguf'';
          p0 = \<lparr>os_environ = initial_environ h, events = []\<rparr>
      in
      if \<not> path_exists h model_path then
        (Exit 1, emit (Print_stderr (model_not_found_message model_path)) p0)
      else
      let p1 = emit (Import ''llama_cpp.server.app'') p0 in
      if \<not> importable h ''llama_cpp.server.app'' then
        (Exit 1, emit (Print_stderr missing_dependency_message) p1)
      else
      let p2 = emit (Import ''llama_cpp.server.settings'') p1 in
      if \<not> importable h ''llama_cpp.server.settings'' then
        (Exit 1, emit (Print_stderr missing_dependency_message) p2)
      else
      let p3 = setdefault ''LLAMA_CUBLAS'' ''0'' p2;
          p4 = setdefault ''LLAMA_METAL'' ''0'' p3;
          p5 = setdefault ''CUDA_VISIBLE_DEVICES'' ''-1'' p4;
          cpu_count = cpu_count h;
          inference_threads = max (cpu_count - 1) 1;
          server_settings = ServerSettings lib ''127.0.0.1'' 54546 True;
          p6 = emit (Build_ServerSettings server_settings) p5;
          model_settings =
            \<lparr>model = model_path,
             model_alias = ''gemma-3-270m-it'',
             chat_format = ''gemma'',
             n_ctx = 32768,
             n_gpu_layers = 0,
             n_threads = inference_threads,
             n_threads_batch = cpu_count,
             n_batch = 1024,
             n_ubatch = 1024,
             use_mmap = True,
             use_mlock = False,
             cache = True,
             cache_type = ''ram'',
             cache_size = push_bit 30 4,
             offload_kqv = False,
             flash_attn = False,
             logits_all = False,
             verbose = True\<rparr>;
          p7 = emit (Build_ModelSettings model_settings) p6;
          app = App server_settings [model_settings];
          p8 = emit (Create_app server_settings [model_settings]) p7;
          p9 = emit (Import ''uvicorn'') p8
      in
      if \<not> importable h ''uvicorn'' then (Uncaught_ImportError, p9)
      else
        (Runner_entered,
         emit (Uvicorn_run app (host server_settings) (port server_settings) ''info''
                 (ssl_keyfile server_settings) (ssl_certfile server_settings)) p9))"

subsection \<open>Observations on a run\<close>

text \<open>Both guard clauses pass: the model file is there and the two library imports succeed.\<close>

definition passes_guards :: "platform \<Rightarrow> bool" where
  "passes_guards h =
     (path_exists h (model_path h) \<and> importable h ''llama_cpp.server.app'' \<and>
      importable h ''llama_cpp.server.settings'')"

primrec stderr_output :: "event list \<Rightarrow> string list" where
  "stderr_output [] = []"
| "stderr_output (e # es) =
     (case e of Print_stderr s \<Rightarrow> s # stderr_output es | _ \<Rightarrow> stderr_output es)"

primrec built_server_settings :: "event list \<Rightarrow> server_settings list" where
  "built_server_settings [] = []"
| "built_server_settings (e # es) =
     (case e of Build_ServerSettings s \<Rightarrow> s # built_server_settings es
      | _ \<Rightarrow> built_server_settings es)"

primrec built_model_settings :: "event list \<Rightarrow> model_settings list" where
  "built_model_settings [] = []"
| "built_model_settings (e # es) =
     (case e of Build_ModelSettings m \<Rightarrow> m # built_model_settings es
      | _ \<Rightarrow> built_model_settings es)"

primrec created_apps :: "event list \<Rightarrow> app list" where
  "created_apps [] = []"
| "created_apps (e # es) =
     (case e of Create_app s ms \<Rightarrow> App s ms # created_apps es | _ \<Rightarrow> created_apps es)"

text \<open>Host, port, TLS key file and TLS certificate file of every call of the runner.\<close>

primrec runner_calls :: "event list \<Rightarrow> (string \<times> int \<times> string option \<times> string option) list" where
  "runner_calls [] = []"
| "runner_calls (e # es) =
     (case e of Uvicorn_run a h p l k c \<Rightarrow> (h, p, k, c) # runner_calls es
      | _ \<Rightarrow> runner_calls es)"

definition endpoint_of :: "server_settings \<Rightarrow> string \<times> int \<times> string option \<times> string option" where
  "endpoint_of s = (host s, port s, ssl_keyfile s, ssl_certfile s)"

text \<open>The app handed to the runner at every call of the runner.\<close>

primrec runner_apps :: "event list \<Rightarrow> app list" where
  "runner_apps [] = []"
| "runner_apps (e # es) =
     (case e of Uvicorn_run a h p l k c \<Rightarrow> a # runner_apps es | _ \<Rightarrow> runner_apps es)"

definition is_env_default :: "event \<Rightarrow> bool" where
  "is_env_default e = (case e of Environ_setdefault k v \<Rightarrow> True | _ \<Rightarrow> False)"

definition is_library_import :: "event \<Rightarrow> bool" where
  "is_library_import e = (case e of Import m \<Rightarrow> prefix ''llama_cpp'' m | _ \<Rightarrow> False)"

definition uses_library :: "event \<Rightarrow> bool" where
  "uses_library e =
     (case e of Build_ServerSettings s \<Rightarrow> True | Build_ModelSettings m \<Rightarrow> True
      | Create_app s ms \<Rightarrow> True | Uvicorn_run a h p l k c \<Rightarrow> True | _ \<Rightarrow> False)"

definition touches_library :: "event \<Rightarrow> bool" where
  "touches_library e = (is_library_import e \<or> uses_library e)"

text \<open>\<open>all_before P Q es\<close>: in \<open>es\<close>, no event with \<open>P\<close> comes after an event with \<open>Q\<close>.\<close>

primrec all_before :: "('a \<Rightarrow> bool) \<Rightarrow> ('a \<Rightarrow> bool) \<Rightarrow> 'a list \<Rightarrow> bool" where
  "all_before P Q [] = True"
| "all_before P Q (e # es) = ((Q e \<longrightarrow> \<not> list_ex P es) \<and> all_before P Q es)"

text \<open>The fields of the model settings that are not source constants, cleared.\<close>

definition clear_host_fields :: "model_settings \<Rightarrow> model_settings" where
  "clear_host_fields m = m\<lparr>model := [], n_threads := 0, n_threads_batch := 0\<rparr>"

subsection \<open>Example hosts\<close>

definition lib0 :: server_library where
  "lib0 = \<lparr>default_ssl_keyfile = None, default_ssl_certfile = None\<rparr>"

definition lib_tls :: server_library where
  "lib_tls = \<lparr>default_ssl_keyfile = Some ''/etc/tls/key.pem'',
              default_ssl_certfile = Some ''/etc/tls/cert.pem''\<rparr>"

definition host8 :: platform where
  "host8 =
     \<lparr>script_dir = ''/opt/Runner1'',
      path_exists = (\<lambda>p. p = ''/opt/Runner1/Model/gemma-3-270m-it-Q8_0.gguf''),
      importable = (\<lambda>m. True),
      initial_environ = [''CUDA_VISIBLE_DEVICES'' \<mapsto> ''0'', ''HOME'' \<mapsto> ''/root''],
      cpu_count = 8\<rparr>"

definition host1 :: platform where
  "host1 = host8\<lparr>cpu_count := 1\<rparr>"

definition host8_bare :: platform where
  "host8_bare = host8\<lparr>initial_environ := Map.empty\<rparr>"

definition host8_moved :: platform where
  "host8_moved =
     host8\<lparr>script_dir := ''/srv/Runner1'',
           path_exists := (\<lambda>p. p = ''/srv/Runner1/Model/gemma-3-270m-it-Q8_0.gguf'')\<rparr>"

definition host_no_model :: platform where
  "host_no_model = host8\<lparr>path_exists := (\<lambda>p. False)\<rparr>"

definition host_no_library :: platform where
  "host_no_library = host8\<lparr>importable := (\<lambda>m. m = ''uvicorn'')\<rparr>"

section \<open>Properties\<close>

subsection \<open>Steps of a run\<close>

lemma events_emit: "events (emit e p) = events p @ [e]"
  by (simp add: emit_def)

lemma os_environ_emit: "os_environ (emit e p) = os_environ p"
  by (simp add: emit_def)

lemma events_setdefault: "events (setdefault k v p) = events p @ [Environ_setdefault k v]"
  by (simp add: setdefault_def emit_def Let_def split: option.splits)

lemma os_environ_setdefault:
  "os_environ (setdefault k v p) =
     (case os_environ p k of Some _ \<Rightarrow> os_environ p | None \<Rightarrow> (os_environ p)(k \<mapsto> v))"
  by (simp add: setdefault_def emit_def Let_def split: option.splits)

lemma main_model_missing:
  assumes "\<not> path_exists h (model_path h)"
  shows "main lib h =
     (Exit 1, \<lparr>os_environ = initial_environ h,
               events = [Print_stderr (model_not_found_message (model_path h))]\<rparr>)"
  using assms by (simp add: main_def model_path_def Let_def emit_def)

lemma main_library_missing:
  assumes "path_exists h (model_path h)"
    and "\<not> (importable h ''llama_cpp.server.app'' \<and> importable h ''llama_cpp.server.settings'')"
  shows "fst (main lib h) = Exit 1"
    and "stderr_output (events (snd (main lib h))) = [missing_dependency_message]"
  using assms by (auto simp add: main_def model_path_def Let_def emit_def)

lemma events_main:
  assumes "passes_guards h"
    and "ss = ServerSettings lib ''127.0.0.1'' 54546 True"
    and "ms = \<lparr>model = model_path h, model_alias = ''gemma-3-270m-it'',
               chat_format = ''gemma'', n_ctx = 32768, n_gpu_layers = 0,
               n_threads = max (cpu_count h - 1) 1, n_threads_batch = cpu_count h,
               n_batch = 1024, n_ubatch = 1024, use_mmap = True, use_mlock = False,
               cache = True, cache_type = ''ram'', cache_size = 4294967296,
               offload_kqv = False, flash_attn = False, logits_all = False,
               verbose = True\<rparr>"
  shows "events (snd (main lib h)) =
     [Import ''llama_cpp.server.app'', Import ''llama_cpp.server.settings'',
      Environ_setdefault ''LLAMA_CUBLAS'' ''0'', Environ_setdefault ''LLAMA_METAL'' ''0'',
      Environ_setdefault ''CUDA_VISIBLE_DEVICES'' ''-1'',
      Build_ServerSettings ss, Build_ModelSettings ms, Create_app ss [ms],
      Import ''uvicorn''] @
     (if importable h ''uvicorn''
      then [Uvicorn_run (App ss [ms]) (host ss) (port ss) ''info''
              (ssl_keyfile ss) (ssl_certfile ss)]
      else [])"
  using assms
  by (simp add: main_def passes_guards_def model_path_def Let_def events_emit events_setdefault)

lemma os_environ_main:
  assumes "passes_guards h"
  shows "os_environ (snd (main lib h)) k =
     (case initial_environ h k of
        Some v \<Rightarrow> Some v
      | None \<Rightarrow>
          if k = ''LLAMA_CUBLAS'' \<or> k = ''LLAMA_METAL'' then Some ''0''
          else if k = ''CUDA_VISIBLE_DEVICES'' then Some ''-1''
          else None)"
  using assms
  by (simp add: main_def passes_guards_def model_path_def Let_def os_environ_emit
      os_environ_setdefault split: option.splits)

lemma outcome_main:
  assumes "passes_guards h"
  shows "fst (main lib h) = (if importable h ''uvicorn'' then Runner_entered else Uncaught_ImportError)"
  using assms by (simp add: main_def passes_guards_def model_path_def Let_def)

lemma passes_guards_host8: "passes_guards host8"
  by (simp add: passes_guards_def host8_def model_path_def path_join_def)

lemma passes_guards_host1: "passes_guards host1"
  by (simp add: passes_guards_def host1_def host8_def model_path_def path_join_def)

subsection \<open>Thread pools\<close>

text \<open>
  Claim C1. On a run that passes both guards, with a detected CPU count \<open>C \<ge> 1\<close>, exactly
  one model configuration is built; its \<open>n_threads\<close> is \<open>max (C - 1) 1\<close>, which is at
  least 1, and its \<open>n_threads_batch\<close> is \<open>C\<close>.
\<close>

theorem thread_pool_sizes:
  assumes "passes_guards h" and "1 \<le> cpu_count h"
  shows "map n_threads (built_model_settings (events (snd (main lib h))))
           = [max (cpu_count h - 1) 1]
       \<and> map n_threads_batch (built_model_settings (events (snd (main lib h))))
           = [cpu_count h]
       \<and> list_all (\<lambda>m. 1 \<le> n_threads m) (built_model_settings (events (snd (main lib h))))"
  using events_main [OF assms(1) refl refl, of lib] by simp

theorem thread_pool_sizes_witness:
  "passes_guards host8 \<and> 1 \<le> cpu_count host8
   \<and> map n_threads (built_model_settings (events (snd (main lib0 host8)))) = [7]
   \<and> map n_threads_batch (built_model_settings (events (snd (main lib0 host8)))) = [8]
   \<and> passes_guards host1 \<and> 1 \<le> cpu_count host1
   \<and> map n_threads (built_model_settings (events (snd (main lib0 host1)))) = [1]
   \<and> map n_threads_batch (built_model_settings (events (snd (main lib0 host1)))) = [1]"
proof -
  have c8: "1 \<le> cpu_count host8" by (simp add: host8_def)
  have c1: "1 \<le> cpu_count host1" by (simp add: host1_def)
  from thread_pool_sizes [OF passes_guards_host8 c8, of lib0]
       thread_pool_sizes [OF passes_guards_host1 c1, of lib0]
  show ?thesis
    using passes_guards_host8 passes_guards_host1
    by (simp add: host8_def host1_def)
qed

subsection \<open>Fixed settings\<close>

text \<open>
  Claim C3. On every run that passes both guards, whatever the host, its environment and
  the library's defaults, the one model configuration built has \<open>n_gpu_layers = 0\<close> and
  \<open>n_ctx = 32768\<close>, and the one server configuration built has the loopback address
  \<open>127.0.0.1\<close> as its host.
\<close>

theorem cpu_only_context_and_loopback:
  assumes "passes_guards h"
  shows "map n_gpu_layers (built_model_settings (events (snd (main lib h)))) = [0]
       \<and> map n_ctx (built_model_settings (events (snd (main lib h)))) = [32768]
       \<and> map host (built_server_settings (events (snd (main lib h)))) = [''127.0.0.1'']"
  using events_main [OF assms refl refl, of lib] by (simp add: ServerSettings_def)

theorem cpu_only_context_and_loopback_witness:
  "passes_guards host8
   \<and> map n_gpu_layers (built_model_settings (events (snd (main lib_tls host8)))) = [0]
   \<and> map n_ctx (built_model_settings (events (snd (main lib_tls host8)))) = [32768]
   \<and> map host (built_server_settings (events (snd (main lib_tls host8)))) = [''127.0.0.1'']"
  using cpu_only_context_and_loopback [OF passes_guards_host8, of lib_tls] passes_guards_host8
  by simp

text \<open>
  Claim C7. On every run that passes both guards, the one server configuration built has
  \<open>interrupt_requests\<close> true, whatever the host.
\<close>

theorem request_interruption_enabled:
  assumes "passes_guards h"
  shows "map interrupt_requests (built_server_settings (events (snd (main lib h)))) = [True]"
  using events_main [OF assms refl refl, of lib] by (simp add: ServerSettings_def)

theorem request_interruption_enabled_witness:
  "passes_guards host1
   \<and> map interrupt_requests (built_server_settings (events (snd (main lib0 host1)))) = [True]"
  using request_interruption_enabled [OF passes_guards_host1, of lib0] passes_guards_host1
  by simp

text \<open>
  Claim C8. On every run that passes both guards, the one model configuration built has
  the cache enabled, the cache type \<open>ram\<close> and the cache size \<open>4 * 2 ^ 30 = 4294967296\<close>
  bytes, whatever the host.
\<close>

theorem cache_policy_fixed:
  assumes "passes_guards h"
  shows "map cache (built_model_settings (events (snd (main lib h)))) = [True]
       \<and> map cache_type (built_model_settings (events (snd (main lib h)))) = [''ram'']
       \<and> map cache_size (built_model_settings (events (snd (main lib h)))) = [4 * 2 ^ 30]
       \<and> (4 * 2 ^ 30 :: int) = 4294967296"
  using events_main [OF assms refl refl, of lib] by simp

theorem cache_policy_fixed_witness:
  "passes_guards host8
   \<and> map cache (built_model_settings (events (snd (main lib0 host8)))) = [True]
   \<and> map cache_type (built_model_settings (events (snd (main lib0 host8)))) = [''ram'']
   \<and> map cache_size (built_model_settings (events (snd (main lib0 host8)))) = [4294967296]"
  using cache_policy_fixed [OF passes_guards_host8, of lib0] passes_guards_host8
  by simp

subsection \<open>The guard clauses\<close>

text \<open>
  Claim C2. When the model file does not exist at its path under the launcher's own
  directory, the run ends with exit status 1 and its only call is the print of the
  diagnostic to the error stream: the environment is the one it started with, no
  configuration object is built, no app is created and the runner is never called,
  so no port is bound.
\<close>

theorem missing_model_exits_first:
  assumes "\<not> path_exists h (model_path h)"
  shows "fst (main lib h) = Exit 1
       \<and> events (snd (main lib h)) = [Print_stderr (model_not_found_message (model_path h))]
       \<and> os_environ (snd (main lib h)) = initial_environ h
       \<and> built_server_settings (events (snd (main lib h))) = []
       \<and> built_model_settings (events (snd (main lib h))) = []
       \<and> created_apps (events (snd (main lib h))) = []
       \<and> runner_calls (events (snd (main lib h))) = []"
  by (simp add: main_model_missing [OF assms])

theorem missing_model_exits_first_witness:
  "\<not> path_exists host_no_model (model_path host_no_model)
   \<and> fst (main lib0 host_no_model) = Exit 1
   \<and> events (snd (main lib0 host_no_model)) =
       [Print_stderr ''[!] Model file not found: /opt/Runner1/Model/gemma-3-270m-it-Q8_0.gguf'']
   \<and> os_environ (snd (main lib0 host_no_model)) = initial_environ host_no_model
   \<and> runner_calls (events (snd (main lib0 host_no_model))) = []"
proof -
  have missing: "\<not> path_exists host_no_model (model_path host_no_model)"
    by (simp add: host_no_model_def)
  have path: "model_path host_no_model = ''/opt/Runner1/Model/gemma-3-270m-it-Q8_0.gguf''"
    by (simp add: host_no_model_def host8_def model_path_def path_join_def)
  from missing_model_exits_first [OF missing, of lib0] missing show ?thesis
    by (simp add: path model_not_found_message_def)
qed

text \<open>
  Claim C6. When the model file exists and one of the two imports of the server library
  fails, the run ends with exit status 1, and what it printed to the error stream is the
  missing-dependency message, which contains the install command
  \<open>pip install "llama-cpp-python[server]"\<close>.
\<close>

theorem missing_library_exits_with_install_hint:
  assumes "path_exists h (model_path h)"
    and "\<not> importable h ''llama_cpp.server.app'' \<or> \<not> importable h ''llama_cpp.server.settings''"
  shows \<open>fst (main lib h) = Exit 1
       \<and> stderr_output (events (snd (main lib h))) = [missing_dependency_message]
       \<and> sublist ''pip install "llama-cpp-python[server]"'' missing_dependency_message\<close>
proof -
  from assms(2)
  have failed: "\<not> (importable h ''llama_cpp.server.app'' \<and> importable h ''llama_cpp.server.settings'')"
    by blast
  have \<open>sublist ''pip install "llama-cpp-python[server]"'' missing_dependency_message\<close>
    by (simp add: missing_dependency_message_def sublist_Cons_right)
  with main_library_missing [OF assms(1) failed, of lib] show ?thesis
    by simp
qed

theorem missing_library_exits_with_install_hint_witness:
  \<open>path_exists host_no_library (model_path host_no_library)
   \<and> \<not> importable host_no_library ''llama_cpp.server.app''
   \<and> fst (main lib0 host_no_library) = Exit 1
   \<and> stderr_output (events (snd (main lib0 host_no_library))) =
       [''[!] Missing dependency: llama-cpp-python with server extras.'' @ [CHR 0x0A] @
        ''    Install it with: pip install "llama-cpp-python[server]"'']\<close>
proof -
  have present: "path_exists host_no_library (model_path host_no_library)"
    by (simp add: host_no_library_def host8_def model_path_def path_join_def)
  have failing: "\<not> importable host_no_library ''llama_cpp.server.app''
      \<or> \<not> importable host_no_library ''llama_cpp.server.settings''"
    by (simp add: host_no_library_def)
  have app_fails: "\<not> importable host_no_library ''llama_cpp.server.app''"
    by (simp add: host_no_library_def)
  from missing_library_exits_with_install_hint [OF present failing, of lib0] present app_fails
  show ?thesis
    by (simp add: missing_dependency_message_def)
qed

subsection \<open>Environment defaults\<close>

text \<open>
  Claim C4. On a run that passes both guards, for every initial environment and every
  variable \<open>k\<close>: a variable that was present keeps the caller's value; a variable that
  was absent is set to \<open>0\<close> when it is \<open>LLAMA_CUBLAS\<close> or \<open>LLAMA_METAL\<close>, to \<open>-1\<close> when it is
  \<open>CUDA_VISIBLE_DEVICES\<close>, and stays absent otherwise. So the launcher writes a
  variable exactly when it is one of the three and was absent.
\<close>

theorem gpu_defaults_only_when_absent:
  assumes "passes_guards h"
  shows "os_environ (snd (main lib h)) k =
           (case initial_environ h k of
              Some v \<Rightarrow> Some v
            | None \<Rightarrow>
                if k = ''LLAMA_CUBLAS'' \<or> k = ''LLAMA_METAL'' then Some ''0''
                else if k = ''CUDA_VISIBLE_DEVICES'' then Some ''-1''
                else None)
       \<and> (os_environ (snd (main lib h)) k \<noteq> initial_environ h k \<longleftrightarrow>
            initial_environ h k = None
            \<and> (k = ''LLAMA_CUBLAS'' \<or> k = ''LLAMA_METAL'' \<or> k = ''CUDA_VISIBLE_DEVICES''))"
  by (simp add: os_environ_main [OF assms] split: option.splits)

theorem gpu_defaults_only_when_absent_witness:
  "passes_guards host8
   \<and> os_environ (snd (main lib0 host8)) ''LLAMA_CUBLAS'' = Some ''0''
   \<and> os_environ (snd (main lib0 host8)) ''LLAMA_METAL'' = Some ''0''
   \<and> os_environ (snd (main lib0 host8)) ''CUDA_VISIBLE_DEVICES'' = Some ''0''
   \<and> os_environ (snd (main lib0 host8)) ''HOME'' = Some ''/root''
   \<and> os_environ (snd (main lib0 host8)) ''PATH'' = None"
  using gpu_defaults_only_when_absent [OF passes_guards_host8, of lib0 "''LLAMA_CUBLAS''"]
    gpu_defaults_only_when_absent [OF passes_guards_host8, of lib0 "''LLAMA_METAL''"]
    gpu_defaults_only_when_absent [OF passes_guards_host8, of lib0 "''CUDA_VISIBLE_DEVICES''"]
    gpu_defaults_only_when_absent [OF passes_guards_host8, of lib0 "''HOME''"]
    gpu_defaults_only_when_absent [OF passes_guards_host8, of lib0 "''PATH''"]
    passes_guards_host8
  by (simp add: host8_def)

text \<open>
  Claim C5, as stated: the three environment defaults come before every import and every
  use of the inference library. On the example host with eight CPUs this is false: the
  two imports of \<open>llama_cpp.server\<close> are the first calls of the run.
\<close>

theorem defaults_not_before_import:
  "\<not> all_before is_env_default touches_library (events (snd (main lib0 host8)))"
  using events_main [OF passes_guards_host8 refl refl, of lib0]
  by (simp add: is_env_default_def touches_library_def is_library_import_def uses_library_def)

text \<open>
  Claim C5, amended. On a run that passes both guards, the three environment defaults
  are applied, in the source's order, after the two imports of the server library (the
  import guard runs first) and before any configuration object is built, the app is
  created or the runner is called.
\<close>

theorem defaults_after_import_before_use:
  assumes "passes_guards h"
  shows "filter is_env_default (events (snd (main lib h))) =
           [Environ_setdefault ''LLAMA_CUBLAS'' ''0'', Environ_setdefault ''LLAMA_METAL'' ''0'',
            Environ_setdefault ''CUDA_VISIBLE_DEVICES'' ''-1'']
       \<and> filter is_library_import (events (snd (main lib h))) =
           [Import ''llama_cpp.server.app'', Import ''llama_cpp.server.settings'']
       \<and> all_before is_library_import is_env_default (events (snd (main lib h)))
       \<and> all_before is_env_default uses_library (events (snd (main lib h)))"
  using events_main [OF assms refl refl, of lib]
  by (simp add: is_env_default_def is_library_import_def uses_library_def)

theorem defaults_after_import_before_use_witness:
  "passes_guards host8_bare
   \<and> filter is_env_default (events (snd (main lib0 host8_bare))) =
       [Environ_setdefault ''LLAMA_CUBLAS'' ''0'', Environ_setdefault ''LLAMA_METAL'' ''0'',
        Environ_setdefault ''CUDA_VISIBLE_DEVICES'' ''-1'']
   \<and> all_before is_library_import is_env_default (events (snd (main lib0 host8_bare)))
   \<and> all_before is_env_default uses_library (events (snd (main lib0 host8_bare)))"
proof -
  have passes: "passes_guards host8_bare"
    by (simp add: passes_guards_def host8_bare_def host8_def model_path_def path_join_def)
  from defaults_after_import_before_use [OF passes, of lib0] passes show ?thesis
    by simp
qed

subsection \<open>The bound endpoint\<close>

text \<open>
  Claim C9. On a run that passes both guards and imports the runner, exactly one server
  configuration \<open>ss\<close> is built, the one the constructor returns for host \<open>127.0.0.1\<close>,
  port 54546 and request interruption; exactly one model configuration \<open>ms\<close> is built;
  the one app created is made from \<open>ss\<close> and \<open>[ms]\<close>; and the runner is called once, as
  the last call of the run, with that app and with the host, port, TLS key file and TLS
  certificate file read from \<open>ss\<close>. The run ends in the runner.
\<close>

theorem runner_bound_to_configured_endpoint:
  assumes "passes_guards h" and "importable h ''uvicorn''"
  shows "map host (built_server_settings (events (snd (main lib h)))) = [''127.0.0.1'']
       \<and> map port (built_server_settings (events (snd (main lib h)))) = [54546]
       \<and> runner_calls (events (snd (main lib h))) =
           map endpoint_of (built_server_settings (events (snd (main lib h))))
       \<and> built_server_settings (events (snd (main lib h))) =
           [ServerSettings lib ''127.0.0.1'' 54546 True]
       \<and> created_apps (events (snd (main lib h))) =
           map (\<lambda>s. App s (built_model_settings (events (snd (main lib h)))))
             (built_server_settings (events (snd (main lib h))))
       \<and> runner_apps (events (snd (main lib h))) = created_apps (events (snd (main lib h)))
       \<and> (\<exists>ss ms.
             built_server_settings (events (snd (main lib h))) = [ss]
           \<and> built_model_settings (events (snd (main lib h))) = [ms]
           \<and> created_apps (events (snd (main lib h))) = [App ss [ms]]
           \<and> last (events (snd (main lib h))) =
               Uvicorn_run (App ss [ms]) (host ss) (port ss) ''info''
                 (ssl_keyfile ss) (ssl_certfile ss))
       \<and> fst (main lib h) = Runner_entered"
  using events_main [OF assms(1) refl refl, of lib] outcome_main [OF assms(1), of lib] assms(2)
  by (simp add: ServerSettings_def endpoint_of_def)

theorem runner_bound_to_configured_endpoint_witness:
  "passes_guards host8 \<and> importable host8 ''uvicorn''
   \<and> map endpoint_of (built_server_settings (events (snd (main lib_tls host8)))) =
       [(''127.0.0.1'', 54546, Some ''/etc/tls/key.pem'', Some ''/etc/tls/cert.pem'')]
   \<and> runner_calls (events (snd (main lib_tls host8))) =
       [(''127.0.0.1'', 54546, Some ''/etc/tls/key.pem'', Some ''/etc/tls/cert.pem'')]
   \<and> runner_apps (events (snd (main lib_tls host8))) =
       map (\<lambda>s. App s (built_model_settings (events (snd (main lib_tls host8)))))
         (built_server_settings (events (snd (main lib_tls host8))))
   \<and> fst (main lib_tls host8) = Runner_entered"
proof -
  have runner: "importable host8 ''uvicorn''"
    by (simp add: host8_def)
  have built: "built_server_settings (events (snd (main lib_tls host8))) =
      [ServerSettings lib_tls ''127.0.0.1'' 54546 True]"
    using events_main [OF passes_guards_host8 refl refl, of lib_tls] by simp
  have endpoint: "map endpoint_of (built_server_settings (events (snd (main lib_tls host8)))) =
      [(''127.0.0.1'', 54546, Some ''/etc/tls/key.pem'', Some ''/etc/tls/cert.pem'')]"
    unfolding built by (simp add: ServerSettings_def endpoint_of_def lib_tls_def)
  from runner_bound_to_configured_endpoint [OF passes_guards_host8 runner, of lib_tls]
  have claim: "runner_calls (events (snd (main lib_tls host8))) =
        map endpoint_of (built_server_settings (events (snd (main lib_tls host8))))"
    and apps: "runner_apps (events (snd (main lib_tls host8))) =
        map (\<lambda>s. App s (built_model_settings (events (snd (main lib_tls host8)))))
          (built_server_settings (events (snd (main lib_tls host8))))"
    and entered: "fst (main lib_tls host8) = Runner_entered"
    by simp_all
  from claim apps entered endpoint passes_guards_host8 runner show ?thesis
    by simp
qed

subsection \<open>What the configuration depends on\<close>

text \<open>
  Claim C10, as stated: two runs that pass both guards on hosts with the same CPU count
  build identical configuration objects. This is false for two hosts with eight CPUs
  where the launcher lies in different directories: the \<open>model\<close> field is the model
  path under the launcher's own directory.
\<close>

theorem same_cpu_count_different_config:
  "passes_guards host8 \<and> passes_guards host8_moved
   \<and> cpu_count host8 = cpu_count host8_moved
   \<and> built_model_settings (events (snd (main lib0 host8)))
       \<noteq> built_model_settings (events (snd (main lib0 host8_moved)))"
proof -
  have moved: "passes_guards host8_moved"
    by (simp add: passes_guards_def host8_moved_def host8_def model_path_def path_join_def)
  have "model_path host8 \<noteq> model_path host8_moved"
    by (simp add: host8_moved_def host8_def model_path_def path_join_def)
  with events_main [OF passes_guards_host8 refl refl, of lib0]
    events_main [OF moved refl refl, of lib0] passes_guards_host8 moved
  show ?thesis
    by (simp add: host8_moved_def)
qed

text \<open>
  Claim C10, amended. With the same library, two runs that pass both guards build the
  same server configuration, and model configurations that agree in every field except
  \<open>model\<close>, \<open>n_threads\<close> and \<open>n_threads_batch\<close>; when the two hosts also report the same
  CPU count and hold the launcher in the same directory, the model configurations are
  identical.
\<close>

theorem config_determined_by_cpu_count_and_location:
  assumes "passes_guards h1" and "passes_guards h2"
  shows "built_server_settings (events (snd (main lib h1)))
           = built_server_settings (events (snd (main lib h2)))
       \<and> map clear_host_fields (built_model_settings (events (snd (main lib h1))))
           = map clear_host_fields (built_model_settings (events (snd (main lib h2))))
       \<and> (cpu_count h1 = cpu_count h2 \<and> script_dir h1 = script_dir h2 \<longrightarrow>
            built_model_settings (events (snd (main lib h1)))
              = built_model_settings (events (snd (main lib h2))))"
  using events_main [OF assms(1) refl refl, of lib] events_main [OF assms(2) refl refl, of lib]
  by (simp add: clear_host_fields_def model_path_def)

theorem config_determined_by_cpu_count_and_location_witness:
  "passes_guards host8 \<and> passes_guards host8_bare
   \<and> cpu_count host8 = cpu_count host8_bare \<and> script_dir host8 = script_dir host8_bare
   \<and> initial_environ host8 \<noteq> initial_environ host8_bare
   \<and> built_server_settings (events (snd (main lib0 host8)))
       = built_server_settings (events (snd (main lib0 host8_bare)))
   \<and> built_model_settings (events (snd (main lib0 host8)))
       = built_model_settings (events (snd (main lib0 host8_bare)))"
proof -
  have bare: "passes_guards host8_bare"
    by (simp add: passes_guards_def host8_bare_def host8_def model_path_def path_join_def)
  have same: "cpu_count host8 = cpu_count host8_bare \<and> script_dir host8 = script_dir host8_bare"
    by (simp add: host8_bare_def)
  have "initial_environ host8 ''HOME'' \<noteq> initial_environ host8_bare ''HOME''"
    by (simp add: host8_bare_def host8_def)
  then have differ: "initial_environ host8 \<noteq> initial_environ host8_bare"
    by metis
  from config_determined_by_cpu_count_and_location [OF passes_guards_host8 bare, of lib0]
    passes_guards_host8 bare same differ
  show ?thesis
    by simp
qed

end
